theory Spec2Isabelle
  imports Main "HOL-Library.AList"
begin

section \<open>The application object of src/flask/app.py\<close>

subsection \<open>Values\<close>

text \<open>
  A callable is a Python function object: its identity (what \<open>is\<close> compares) and its
  \<open>__name__\<close>.
\<close>

datatype callable = Callable (fn_id: nat) (fn_name: string)

text \<open>
  The values an option may hold (the source types them \<open>Any\<close>): \<open>None\<close>, booleans,
  integers, strings, lists and callables.
\<close>

datatype pyval =
    VNone
  | VBool bool
  | VInt int
  | VStr string
  | VList "pyval list"
  | VFunc callable

text \<open>
  A keyword dictionary (\<open>**options\<close>): keys with their values, in insertion order. A
  Python dictionary holds a key once; the operations below do not depend on it.
\<close>

type_synonym kwargs = "(string \<times> pyval) list"

text \<open>
  The only exception this file can meet: the \<open>TypeError\<close> of Python's argument
  binding, \<open>fn() got multiple values for argument 'name'\<close>, raised when a keyword of
  a call names a parameter that a positional argument has already filled.
\<close>

datatype error = MultipleValues string string

subsection \<open>The class Flask\<close>

text \<open>The ten attributes \<open>__init__\<close> assigns, typed as its annotations type them.\<close>

record Flask =
  import_name :: string
  static_url_path :: "string option"
  static_folder :: "string option"
  static_host :: "string option"
  host_matching :: bool
  subdomain_matching :: bool
  template_folder :: "string option"
  instance_path :: "string option"
  instance_relative_config :: bool
  root_path :: "string option"

text \<open>
  \<open>Flask.__init__\<close> (lines 79-102) with its ten parameters bound: ten assignments, in
  the source's order, and nothing else.
\<close>

definition Flask_init ::
  "string \<Rightarrow> string option \<Rightarrow> string option \<Rightarrow> string option \<Rightarrow> bool \<Rightarrow> bool \<Rightarrow>
   string option \<Rightarrow> string option \<Rightarrow> bool \<Rightarrow> string option \<Rightarrow> error + Flask" where
  "Flask_init import_name' static_url_path' static_folder' static_host' host_matching'
     subdomain_matching' template_folder' instance_path' instance_relative_config' root_path' =
     Inr \<lparr> import_name = import_name',
           static_url_path = static_url_path',
           static_folder = static_folder',
           static_host = static_host',
           host_matching = host_matching',
           subdomain_matching = subdomain_matching',
           template_folder = template_folder',
           instance_path = instance_path',
           instance_relative_config = instance_relative_config',
           root_path = root_path' \<rparr>"

text \<open>
  A parameter with a default: \<open>None\<close> is an argument the caller left out,
  \<open>Some v\<close> one the caller passed.
\<close>

definition arg_or :: "'a \<Rightarrow> 'a option \<Rightarrow> 'a" where
  "arg_or dflt given = (case given of None \<Rightarrow> dflt | Some v \<Rightarrow> v)"

text \<open>
  The call \<open>Flask(import_name, ...)\<close>: the defaults of the signature (lines 81-90) fill
  the parameters the caller left out, then \<open>__init__\<close> runs.
\<close>

definition Flask_new ::
  "string \<Rightarrow> string option option \<Rightarrow> string option option \<Rightarrow> string option option \<Rightarrow>
   bool option \<Rightarrow> bool option \<Rightarrow> string option option \<Rightarrow> string option option \<Rightarrow>
   bool option \<Rightarrow> string option option \<Rightarrow> error + Flask" where
  "Flask_new import_name' static_url_path' static_folder' static_host' host_matching'
     subdomain_matching' template_folder' instance_path' instance_relative_config' root_path' =
     Flask_init import_name'
       (arg_or None static_url_path')
       (arg_or (Some ''static'') static_folder')
       (arg_or None static_host')
       (arg_or False host_matching')
       (arg_or False subdomain_matching')
       (arg_or (Some ''templates'') template_folder')
       (arg_or None instance_path')
       (arg_or False instance_relative_config')
       (arg_or None root_path')"

subsection \<open>The state of a run\<close>

text \<open>
  One evaluation of the call expression \<open>self.add_url_rule(rule, endpoint, f, **options)\<close>:
  the three positional arguments and the keywords it passes.
\<close>

datatype call =
  AddUrlRuleCall (call_rule: string) (call_endpoint: pyval) (call_view_func: callable)
    (call_options: kwargs)

text \<open>
  The application object, and the history of the calls the decorator has made to
  \<open>add_url_rule\<close>. The history is not an attribute of any Python object: it is kept so
  that "the decorator calls \<open>add_url_rule\<close> once, with these arguments" can be stated.
\<close>

record world =
  app :: Flask
  calls :: "call list"

definition new_world :: "Flask \<Rightarrow> world" where
  "new_world a = \<lparr> app = a, calls = [] \<rparr>"

subsection \<open>run and add_url_rule\<close>

text \<open>\<open>Flask.run\<close> (lines 104-113) with its parameters bound: the body is \<open>pass\<close>.\<close>

definition run ::
  "string option \<Rightarrow> int option \<Rightarrow> bool option \<Rightarrow> bool \<Rightarrow> kwargs \<Rightarrow> world \<Rightarrow>
   (error + pyval) \<times> world" where
  "run host port debug load_dotenv options w = (Inr VNone, w)"

text \<open>
  The parameters \<open>run\<close>'s body receives from a call that may leave any of
  \<open>host\<close>, \<open>port\<close>, \<open>debug\<close>, \<open>load_dotenv\<close> out (defaults of lines 106-109).
\<close>

definition run_params ::
  "string option option \<Rightarrow> int option option \<Rightarrow> bool option option \<Rightarrow> bool option \<Rightarrow> kwargs \<Rightarrow>
   string option \<times> int option \<times> bool option \<times> bool \<times> kwargs" where
  "run_params host port debug load_dotenv options =
     (arg_or None host, arg_or None port, arg_or None debug, arg_or True load_dotenv, options)"

definition run_call ::
  "string option option \<Rightarrow> int option option \<Rightarrow> bool option option \<Rightarrow> bool option \<Rightarrow> kwargs \<Rightarrow>
   world \<Rightarrow> (error + pyval) \<times> world" where
  "run_call host port debug load_dotenv options w =
     (case run_params host port debug load_dotenv options of
        (h, p, d, l, opts) \<Rightarrow> run h p d l opts w)"

text \<open>
  \<open>Flask.add_url_rule\<close> (lines 141-173) with its parameters bound: the body is
  \<open>pass\<close>. The annotation of \<open>endpoint\<close> is \<open>Optional[str]\<close>; the decorator passes it
  whatever value the options held, so it is a \<open>pyval\<close> here.
\<close>

definition add_url_rule ::
  "string \<Rightarrow> pyval \<Rightarrow> callable option \<Rightarrow> kwargs \<Rightarrow> world \<Rightarrow> (error + pyval) \<times> world" where
  "add_url_rule rule endpoint view_func options w = (Inr VNone, w)"

subsection \<open>route and its decorator\<close>

text \<open>\<open>d.pop(key, default)\<close>: the value under the key, or the default, and the key removed.\<close>

definition dict_pop :: "string \<Rightarrow> pyval \<Rightarrow> kwargs \<Rightarrow> pyval \<times> kwargs" where
  "dict_pop key dflt d =
     (case map_of d key of
        None \<Rightarrow> (dflt, d)
      | Some v \<Rightarrow> (v, AList.delete key d))"

text \<open>
  Python's binding of the keywords of a call \<open>fn(a1, ..., an, **kw)\<close>: a keyword that
  names a parameter already filled by a positional argument raises \<open>TypeError\<close> (the
  first such keyword, in the dictionary's order); otherwise the keywords reach
  \<open>**options\<close>.
\<close>

definition bind_keywords :: "string \<Rightarrow> string list \<Rightarrow> kwargs \<Rightarrow> error + kwargs" where
  "bind_keywords fn filled kw =
     (case find (\<lambda>k. k \<in> set filled) (map fst kw) of
        Some k \<Rightarrow> Inl (MultipleValues fn k)
      | None \<Rightarrow> Inr kw)"

text \<open>
  The call expression of line 137, \<open>self.add_url_rule(rule, endpoint, f, **options)\<close>:
  \<open>self\<close>, \<open>rule\<close>, \<open>endpoint\<close> and \<open>view_func\<close> are filled positionally, the keywords
  are bound, and the body runs if the binding succeeds.
\<close>

definition call_add_url_rule ::
  "string \<Rightarrow> pyval \<Rightarrow> callable \<Rightarrow> kwargs \<Rightarrow> world \<Rightarrow> (error + pyval) \<times> world" where
  "call_add_url_rule rule endpoint f kw w =
     (let w' = w\<lparr>calls := calls w @ [AddUrlRuleCall rule endpoint f kw]\<rparr> in
      case bind_keywords ''add_url_rule'' [''self'', ''rule'', ''endpoint'', ''view_func''] kw of
        Inl e \<Rightarrow> (Inl e, w')
      | Inr opts \<Rightarrow> add_url_rule rule endpoint (Some f) opts w')"

text \<open>
  The function object \<open>decorator\<close> that \<open>route\<close> returns: a closure over \<open>self\<close> (the
  application object of the world), \<open>rule\<close> and the dictionary \<open>options\<close>. The
  dictionary is created by the call of \<open>route\<close> and reachable from this closure only;
  the closure mutates it, so applying the closure returns the closure's new state too.
\<close>

record closure =
  cl_rule :: string
  cl_options :: kwargs

text \<open>\<open>Flask.route\<close> (lines 115-139): builds the closure and returns it.\<close>

definition route :: "string \<Rightarrow> kwargs \<Rightarrow> world \<Rightarrow> (error + closure) \<times> world" where
  "route rule options w = (Inr \<lparr> cl_rule = rule, cl_options = options \<rparr>, w)"

text \<open>
  The body of \<open>decorator\<close> (lines 135-138): pop \<open>endpoint\<close> from the captured
  dictionary, call \<open>add_url_rule\<close>, return \<open>f\<close>. An exception of the call leaves the
  dictionary popped.
\<close>

definition decorator :: "closure \<Rightarrow> callable \<Rightarrow> world \<Rightarrow> (error + callable) \<times> closure \<times> world" where
  "decorator d f w =
     (case dict_pop ''endpoint'' VNone (cl_options d) of
        (endpoint, options) \<Rightarrow>
          (let d' = d\<lparr>cl_options := options\<rparr> in
           case call_add_url_rule (cl_rule d) endpoint f options w of
             (Inl e, w') \<Rightarrow> (Inl e, d', w')
           | (Inr _, w') \<Rightarrow> (Inr f, d', w')))"

subsection \<open>Programs over the application object\<close>

text \<open>
  The operations a client can perform on a constructed application object, and a
  sequence of them run from a world; an exception of one operation is caught and the
  next one runs.
\<close>

datatype operation =
    Route string kwargs
  | Apply closure callable
  | AddUrlRule string pyval "callable option" kwargs
  | Run "string option option" "int option option" "bool option option" "bool option" kwargs

fun perform :: "operation \<Rightarrow> world \<Rightarrow> world" where
  "perform (Route rule options) w = snd (route rule options w)"
| "perform (Apply d f) w = snd (snd (decorator d f w))"
| "perform (AddUrlRule rule endpoint view_func options) w =
     snd (add_url_rule rule endpoint view_func options w)"
| "perform (Run host port debug load_dotenv options) w =
     snd (run_call host port debug load_dotenv options w)"

text \<open>
  The application of the class docstring (line 42), \<open>Flask('yourapplication')\<close>, used
  as the concrete object of the examples below.
\<close>

abbreviation yourapplication :: Flask where
  "yourapplication \<equiv>
     projr (Flask_new ''yourapplication'' None None None None None None None None None)"

section \<open>Auxiliary facts\<close>

text \<open>What \<open>pop\<close> returns and what it leaves, in terms of the dictionary alone.\<close>

lemma dict_pop_fst: "fst (dict_pop key dflt d) = (case map_of d key of None \<Rightarrow> dflt | Some v \<Rightarrow> v)"
  by (simp add: dict_pop_def split: option.splits)

lemma dict_pop_snd: "snd (dict_pop key dflt d) = filter (\<lambda>(k, v). k \<noteq> key) d"
proof (cases "map_of d key")
  case None
  then have "key \<notin> fst ` set d" by (simp add: map_of_eq_None_iff)
  then have "filter (\<lambda>(k, v). k \<noteq> key) d = d"
    by (force simp: filter_id_conv)
  with None show ?thesis by (simp add: dict_pop_def)
next
  case (Some v)
  have "(\<lambda>p::string \<times> pyval. key \<noteq> fst p) = (\<lambda>p. fst p \<noteq> key)"
    by auto
  with Some show ?thesis
    by (simp add: dict_pop_def AList.delete_eq case_prod_unfold)
qed

text \<open>The binding succeeds when no keyword names a filled parameter, and fails only
  on a keyword that does.\<close>

lemma bind_keywords_Inr:
  "set (map fst kw) \<inter> set filled = {} \<Longrightarrow> bind_keywords fn filled kw = Inr kw"
  by (auto simp: bind_keywords_def find_None_iff split: option.splits)

lemma bind_keywords_cases:
  "bind_keywords fn filled kw = Inr kw \<or>
   (\<exists>k. bind_keywords fn filled kw = Inl (MultipleValues fn k) \<and> k \<in> fst ` set kw \<and> k \<in> set filled)"
  by (auto simp: bind_keywords_def find_Some_iff split: option.splits)

text \<open>The call site and the decorator: the history, the application object, the
  closure's new state and the result.\<close>

lemma call_add_url_rule_history:
  "calls (snd (call_add_url_rule rule endpoint f kw w)) = calls w @ [AddUrlRuleCall rule endpoint f kw]"
  by (simp add: call_add_url_rule_def add_url_rule_def Let_def split: sum.splits)

lemma call_add_url_rule_app:
  "app (snd (call_add_url_rule rule endpoint f kw w)) = app w"
  by (simp add: call_add_url_rule_def add_url_rule_def Let_def split: sum.splits)

lemma decorator_history:
  "calls (snd (snd (decorator d f w))) =
     calls w @ [AddUrlRuleCall (cl_rule d)
                  (case map_of (cl_options d) ''endpoint'' of None \<Rightarrow> VNone | Some v \<Rightarrow> v) f
                  (filter (\<lambda>(k, v). k \<noteq> ''endpoint'') (cl_options d))]"
proof -
  obtain e opts where p: "dict_pop ''endpoint'' VNone (cl_options d) = (e, opts)"
    by (cases "dict_pop ''endpoint'' VNone (cl_options d)")
  have e: "e = (case map_of (cl_options d) ''endpoint'' of None \<Rightarrow> VNone | Some v \<Rightarrow> v)"
    using dict_pop_fst [of "''endpoint''" VNone "cl_options d"] p by simp
  have o: "opts = filter (\<lambda>(k, v). k \<noteq> ''endpoint'') (cl_options d)"
    using dict_pop_snd [of "''endpoint''" VNone "cl_options d"] p by simp
  obtain r w' where c: "call_add_url_rule (cl_rule d) e f opts w = (r, w')"
    by (cases "call_add_url_rule (cl_rule d) e f opts w")
  have "calls w' = calls w @ [AddUrlRuleCall (cl_rule d) e f opts]"
    using call_add_url_rule_history [of "cl_rule d" e f opts w] c by simp
  moreover have "snd (snd (decorator d f w)) = w'"
    using p c by (simp add: decorator_def Let_def split: sum.splits)
  ultimately show ?thesis using e o by simp
qed

lemma decorator_closure:
  "fst (snd (decorator d f w)) = d\<lparr>cl_options := filter (\<lambda>(k, v). k \<noteq> ''endpoint'') (cl_options d)\<rparr>"
proof -
  obtain e opts where p: "dict_pop ''endpoint'' VNone (cl_options d) = (e, opts)"
    by (cases "dict_pop ''endpoint'' VNone (cl_options d)")
  have o: "opts = filter (\<lambda>(k, v). k \<noteq> ''endpoint'') (cl_options d)"
    using dict_pop_snd [of "''endpoint''" VNone "cl_options d"] p by simp
  show ?thesis
    using p o by (simp add: decorator_def Let_def split: sum.splits prod.splits)
qed

lemma decorator_app: "app (snd (snd (decorator d f w))) = app w"
proof -
  obtain e opts where p: "dict_pop ''endpoint'' VNone (cl_options d) = (e, opts)"
    by (cases "dict_pop ''endpoint'' VNone (cl_options d)")
  obtain r w' where c: "call_add_url_rule (cl_rule d) e f opts w = (r, w')"
    by (cases "call_add_url_rule (cl_rule d) e f opts w")
  have "app w' = app w"
    using call_add_url_rule_app [of "cl_rule d" e f opts w] c by simp
  moreover have "snd (snd (decorator d f w)) = w'"
    using p c by (simp add: decorator_def Let_def split: sum.splits)
  ultimately show ?thesis by simp
qed

lemma decorator_result:
  "fst (decorator d f w) =
     (case bind_keywords ''add_url_rule'' [''self'', ''rule'', ''endpoint'', ''view_func'']
             (filter (\<lambda>(k, v). k \<noteq> ''endpoint'') (cl_options d)) of
        Inl e \<Rightarrow> Inl e | Inr _ \<Rightarrow> Inr f)"
proof -
  obtain e opts where p: "dict_pop ''endpoint'' VNone (cl_options d) = (e, opts)"
    by (cases "dict_pop ''endpoint'' VNone (cl_options d)")
  have o: "opts = filter (\<lambda>(k, v). k \<noteq> ''endpoint'') (cl_options d)"
    using dict_pop_snd [of "''endpoint''" VNone "cl_options d"] p by simp
  show ?thesis
    using p o
    by (simp add: decorator_def call_add_url_rule_def add_url_rule_def Let_def split: sum.splits)
qed

lemma fold_perform_app: "app (fold perform ops w) = app w"
proof (induction ops arbitrary: w)
  case Nil
  show ?case by simp
next
  case (Cons x xs)
  have "app (perform x w) = app w"
    by (cases x)
      (simp_all add: route_def decorator_app add_url_rule_def run_call_def run_params_def run_def)
  with Cons show ?case by simp
qed

section \<open>Properties\<close>

subsection \<open>Construction\<close>

text \<open>
  C1. For every tuple of the ten constructor arguments, construction returns an
  application object (no exception) each of whose fields equals the argument passed
  for it; constructing with \<open>import_name = "myapp"\<close> gives an object whose
  \<open>import_name\<close> reads back \<open>"myapp"\<close>.
\<close>

theorem init_fields_roundtrip:
  "(\<exists>F. Flask_init a b c d e f g h i j = Inr F
        \<and> import_name F = a \<and> static_url_path F = b \<and> static_folder F = c
        \<and> static_host F = d \<and> host_matching F = e \<and> subdomain_matching F = f
        \<and> template_folder F = g \<and> instance_path F = h
        \<and> instance_relative_config F = i \<and> root_path F = j)
   \<and> map_sum id import_name (Flask_init ''myapp'' b c d e f g h i j) = Inr ''myapp''"
  by (simp add: Flask_init_def)

text \<open>
  C9. Constructing with only \<open>import_name\<close> supplied gives the defaults
  \<open>static_url_path = None\<close>, \<open>static_folder = "static"\<close>, \<open>static_host = None\<close>,
  \<open>host_matching = False\<close>, \<open>subdomain_matching = False\<close>,
  \<open>template_folder = "templates"\<close>, \<open>instance_path = None\<close>,
  \<open>instance_relative_config = False\<close>, \<open>root_path = None\<close>; and \<open>run\<close> called without
  \<open>load_dotenv\<close> runs its body with \<open>load_dotenv = True\<close>.
\<close>

theorem constructor_and_run_defaults:
  "Flask_new n None None None None None None None None None =
     Inr \<lparr> import_name = n, static_url_path = None, static_folder = Some ''static'',
           static_host = None, host_matching = False, subdomain_matching = False,
           template_folder = Some ''templates'', instance_path = None,
           instance_relative_config = False, root_path = None \<rparr>
   \<and> run_params host port debug None options =
       (arg_or None host, arg_or None port, arg_or None debug, True, options)
   \<and> run_call host port debug None options w =
       run (arg_or None host) (arg_or None port) (arg_or None debug) True options w"
  by (simp add: Flask_new_def Flask_init_def arg_or_def run_params_def run_call_def)

subsection \<open>The decorator\<close>

text \<open>
  C2, as the specification states it, fails: \<open>route('/', view_func=other)\<close> collects
  the keyword \<open>view_func\<close> into \<open>options\<close>, and the decorator's call
  \<open>self.add_url_rule(rule, endpoint, f, **options)\<close> then passes \<open>view_func\<close> twice,
  positionally and by keyword. Python raises \<open>TypeError\<close>, and the decorator does not
  return \<open>f\<close>.
\<close>

theorem route_view_func_option_raises:
  "fst (decorator
         (projr (fst (route ''/'' [(''view_func'', VFunc (Callable 1 ''other''))] (new_world yourapplication))))
         (Callable 0 ''index'')
         (snd (route ''/'' [(''view_func'', VFunc (Callable 1 ''other''))] (new_world yourapplication))))
     = Inl (MultipleValues ''add_url_rule'' ''view_func'')
   \<and> fst (decorator
         (projr (fst (route ''/'' [(''view_func'', VFunc (Callable 1 ''other''))] (new_world yourapplication))))
         (Callable 0 ''index'')
         (snd (route ''/'' [(''view_func'', VFunc (Callable 1 ''other''))] (new_world yourapplication))))
     \<noteq> Inr (Callable 0 ''index'')"
  by (simp add: route_def decorator_def dict_pop_def call_add_url_rule_def bind_keywords_def)

text \<open>
  C2, amended. For every rule string, every callable \<open>f\<close> and every options mapping
  with no key \<open>view_func\<close> (and no key \<open>rule\<close> or \<open>self\<close>, which Python's binding of
  the call of \<open>route\<close> itself never lets into \<open>options\<close>), \<open>route\<close> returns a
  decorator that, applied to \<open>f\<close>, returns \<open>f\<close> itself; applied again, to \<open>g\<close>, it
  returns \<open>g\<close>.
\<close>

theorem decorator_returns_callable:
  assumes "''view_func'' \<notin> fst ` set options"
    and "''rule'' \<notin> fst ` set options"
    and "''self'' \<notin> fst ` set options"
  shows "\<exists>d. route rule options w = (Inr d, w)
           \<and> fst (decorator d f w1) = Inr f
           \<and> fst (decorator (fst (snd (decorator d f w1))) g w2) = Inr g"
proof -
  let ?d = "\<lparr> cl_rule = rule, cl_options = options \<rparr>"
  let ?rest = "filter (\<lambda>(k, v). k \<noteq> ''endpoint'') options"
  have keys: "set (map fst ?rest) \<inter> set [''self'', ''rule'', ''endpoint'', ''view_func''] = {}"
    using assms by auto
  have b: "bind_keywords ''add_url_rule'' [''self'', ''rule'', ''endpoint'', ''view_func''] ?rest
             = Inr ?rest"
    using keys by (rule bind_keywords_Inr)
  have again: "filter (\<lambda>(k, v). k \<noteq> ''endpoint'') ?rest = ?rest"
    by (simp add: case_prod_unfold)
  have first: "fst (decorator ?d f w1) = Inr f"
    using b by (simp add: decorator_result)
  have d1: "fst (snd (decorator ?d f w1)) = ?d\<lparr>cl_options := ?rest\<rparr>"
    by (simp add: decorator_closure)
  have second: "fst (decorator (?d\<lparr>cl_options := ?rest\<rparr>) g w2) = Inr g"
    using b again by (simp add: decorator_result)
  show ?thesis
    using first second d1 by (simp add: route_def)
qed

theorem decorator_returns_callable_witness:
  "''view_func'' \<notin> fst ` set [(''endpoint'', VStr ''home''), (''methods'', VList [VStr ''GET''])]
   \<and> ''rule'' \<notin> fst ` set [(''endpoint'', VStr ''home''), (''methods'', VList [VStr ''GET''])]
   \<and> ''self'' \<notin> fst ` set [(''endpoint'', VStr ''home''), (''methods'', VList [VStr ''GET''])]
   \<and> (\<exists>d. route ''/'' [(''endpoint'', VStr ''home''), (''methods'', VList [VStr ''GET''])]
              (new_world yourapplication) = (Inr d, new_world yourapplication)
          \<and> fst (decorator d (Callable 0 ''index'') (new_world yourapplication)) = Inr (Callable 0 ''index'')
          \<and> fst (decorator (fst (snd (decorator d (Callable 0 ''index'') (new_world yourapplication))))
                   (Callable 1 ''about'') (new_world yourapplication)) = Inr (Callable 1 ''about''))"
  using decorator_returns_callable
    [of "[(''endpoint'', VStr ''home''), (''methods'', VList [VStr ''GET''])]" "''/''"
        "new_world yourapplication" "Callable 0 ''index''" "new_world yourapplication" "Callable 1 ''about''"
        "new_world yourapplication"]
  by simp

text \<open>
  C3. For every rule string, options mapping and callable \<open>f\<close>, applying the decorator
  returned by \<open>route(rule, **options)\<close> to \<open>f\<close> evaluates the call of
  \<open>add_url_rule\<close> exactly once, with the arguments \<open>rule\<close>, \<open>endpoint\<close>, \<open>f\<close> and
  the remaining options: \<open>endpoint\<close> is the value \<open>options\<close> held under the key
  \<open>endpoint\<close> (\<open>None\<close> if it held none), and the remaining options are \<open>options\<close>
  without that key.
\<close>

theorem decorator_calls_add_url_rule_once:
  "\<exists>d. route rule options w = (Inr d, w)
      \<and> calls (snd (snd (decorator d f w1))) =
          calls w1 @ [AddUrlRuleCall rule
                        (case map_of options ''endpoint'' of None \<Rightarrow> VNone | Some v \<Rightarrow> v)
                        f
                        (filter (\<lambda>(k, v). k \<noteq> ''endpoint'') options)]"
  by (simp add: route_def decorator_history)

text \<open>
  C7. The decorator is stateful in the options it captured: when \<open>options\<close> holds
  \<open>endpoint = v\<close>, the first application forwards \<open>v\<close> and removes the key, so a
  second application of the same decorator forwards \<open>None\<close>; the two forwarded
  endpoints differ whenever \<open>v\<close> is not \<open>None\<close>.
\<close>

theorem decorator_second_application_forwards_None:
  assumes "map_of options ''endpoint'' = Some v"
  shows "\<exists>d. route rule options w = (Inr d, w)
           \<and> calls (snd (snd (decorator d f w1))) =
               calls w1 @ [AddUrlRuleCall rule v f (filter (\<lambda>(k, v). k \<noteq> ''endpoint'') options)]
           \<and> calls (snd (snd (decorator (fst (snd (decorator d f w1))) g w2))) =
               calls w2 @ [AddUrlRuleCall rule VNone g (filter (\<lambda>(k, v). k \<noteq> ''endpoint'') options)]
           \<and> (v \<noteq> VNone \<longrightarrow>
                call_endpoint (last (calls (snd (snd (decorator d f w1))))) \<noteq>
                call_endpoint (last (calls (snd (snd (decorator (fst (snd (decorator d f w1))) g w2))))))"
proof -
  let ?d = "\<lparr> cl_rule = rule, cl_options = options \<rparr>"
  let ?rest = "filter (\<lambda>(k, v). k \<noteq> ''endpoint'') options"
  have gone: "map_of ?rest ''endpoint'' = None"
    by (auto simp: map_of_eq_None_iff)
  have again: "filter (\<lambda>(k, v). k \<noteq> ''endpoint'') ?rest = ?rest"
    by (simp add: case_prod_unfold)
  have first: "calls (snd (snd (decorator ?d f w1))) = calls w1 @ [AddUrlRuleCall rule v f ?rest]"
    using assms by (simp add: decorator_history)
  have d1: "fst (snd (decorator ?d f w1)) = ?d\<lparr>cl_options := ?rest\<rparr>"
    by (simp add: decorator_closure)
  have second: "calls (snd (snd (decorator (?d\<lparr>cl_options := ?rest\<rparr>) g w2))) =
                  calls w2 @ [AddUrlRuleCall rule VNone g ?rest]"
    using gone again by (simp add: decorator_history)
  show ?thesis
    using first second d1 by (simp add: route_def)
qed

theorem decorator_second_application_forwards_None_witness:
  "map_of [(''endpoint'', VStr ''home''), (''methods'', VList [VStr ''GET''])] ''endpoint''
     = Some (VStr ''home'')
   \<and> (\<exists>d. route ''/'' [(''endpoint'', VStr ''home''), (''methods'', VList [VStr ''GET''])]
              (new_world yourapplication) = (Inr d, new_world yourapplication)
          \<and> calls (snd (snd (decorator d (Callable 0 ''index'') (new_world yourapplication)))) =
              [AddUrlRuleCall ''/'' (VStr ''home'') (Callable 0 ''index'')
                 [(''methods'', VList [VStr ''GET''])]]
          \<and> calls (snd (snd (decorator
                (fst (snd (decorator d (Callable 0 ''index'') (new_world yourapplication))))
                (Callable 1 ''about'') (new_world yourapplication)))) =
              [AddUrlRuleCall ''/'' VNone (Callable 1 ''about'')
                 [(''methods'', VList [VStr ''GET''])]]
          \<and> call_endpoint (last (calls (snd (snd (decorator d (Callable 0 ''index'')
                (new_world yourapplication)))))) \<noteq>
            call_endpoint (last (calls (snd (snd (decorator
                (fst (snd (decorator d (Callable 0 ''index'') (new_world yourapplication))))
                (Callable 1 ''about'') (new_world yourapplication)))))))"
  using decorator_second_application_forwards_None
    [of "[(''endpoint'', VStr ''home''), (''methods'', VList [VStr ''GET''])]" "VStr ''home''"
        "''/''" "new_world yourapplication" "Callable 0 ''index''" "new_world yourapplication"
        "Callable 1 ''about''" "new_world yourapplication"]
  by (simp add: new_world_def)

text \<open>
  C8. When the options passed to \<open>route\<close> hold no key \<open>endpoint\<close>, the decorator
  forwards the endpoint \<open>None\<close> to \<open>add_url_rule\<close>, whatever the callable: it is never
  the callable's name.
\<close>

theorem decorator_without_endpoint_forwards_None:
  assumes "''endpoint'' \<notin> fst ` set options"
  shows "\<exists>d. route rule options w = (Inr d, w)
           \<and> calls (snd (snd (decorator d f w1))) = calls w1 @ [AddUrlRuleCall rule VNone f options]
           \<and> call_endpoint (last (calls (snd (snd (decorator d f w1))))) = VNone
           \<and> call_endpoint (last (calls (snd (snd (decorator d f w1))))) \<noteq> VStr (fn_name f)"
proof -
  let ?d = "\<lparr> cl_rule = rule, cl_options = options \<rparr>"
  have none: "map_of options ''endpoint'' = None"
    using assms by (simp add: map_of_eq_None_iff)
  have same: "filter (\<lambda>(k, v). k \<noteq> ''endpoint'') options = options"
    using assms by (force simp: filter_id_conv)
  have "calls (snd (snd (decorator ?d f w1))) = calls w1 @ [AddUrlRuleCall rule VNone f options]"
    using none same by (simp add: decorator_history)
  then show ?thesis
    by (simp add: route_def)
qed

theorem decorator_without_endpoint_forwards_None_witness:
  "''endpoint'' \<notin> fst ` set [(''methods'', VList [VStr ''GET''])]
   \<and> (\<exists>d. route ''/'' [(''methods'', VList [VStr ''GET''])] (new_world yourapplication)
            = (Inr d, new_world yourapplication)
          \<and> calls (snd (snd (decorator d (Callable 0 ''index'') (new_world yourapplication)))) =
              [AddUrlRuleCall ''/'' VNone (Callable 0 ''index'') [(''methods'', VList [VStr ''GET''])]]
          \<and> call_endpoint (last (calls (snd (snd (decorator d (Callable 0 ''index'')
                (new_world yourapplication)))))) = VNone
          \<and> call_endpoint (last (calls (snd (snd (decorator d (Callable 0 ''index'')
                (new_world yourapplication)))))) \<noteq> VStr ''index'')"
  using decorator_without_endpoint_forwards_None
    [of "[(''methods'', VList [VStr ''GET''])]" "''/''" "new_world yourapplication"
        "Callable 0 ''index''" "new_world yourapplication"]
  by (simp add: new_world_def)

subsection \<open>The stubs, errors and the fields\<close>

text \<open>
  C4. For every application object and all arguments, \<open>run\<close> and \<open>add_url_rule\<close>
  return \<open>None\<close>, raise nothing and leave the world as it was: every field of the
  application object is unchanged and nothing is recorded, also when the same rule and
  endpoint are registered a second time and whatever the rule string is.
\<close>

theorem run_and_add_url_rule_no_effect:
  "run host port debug load_dotenv options w = (Inr VNone, w)
   \<and> run_call host' port' debug' load_dotenv' options w = (Inr VNone, w)
   \<and> add_url_rule rule endpoint view_func options w = (Inr VNone, w)
   \<and> add_url_rule rule endpoint view_func' options'
        (snd (add_url_rule rule endpoint view_func options w)) = (Inr VNone, w)
   \<and> app (snd (run host port debug load_dotenv options w)) = app w
   \<and> app (snd (add_url_rule rule endpoint view_func options w)) = app w
   \<and> calls (snd (add_url_rule rule endpoint view_func options w)) = calls w"
  by (simp add: run_def run_call_def run_params_def add_url_rule_def)

text \<open>
  C5. No operation raises an error of its own: construction, \<open>route\<close>,
  \<open>add_url_rule\<close> and \<open>run\<close> always return, and the decorator either returns its
  callable or fails with the \<open>TypeError\<close> of Python's argument binding, for a keyword
  of its options that names a parameter its call of \<open>add_url_rule\<close> fills
  positionally.
\<close>

theorem only_binding_errors:
  "(\<exists>F. Flask_init a b c d e f g h i j = Inr F)
   \<and> (\<exists>F. Flask_new a b' c' d' e' f' g' h' i' j' = Inr F)
   \<and> (\<exists>cl. fst (route rule options w) = Inr cl)
   \<and> fst (add_url_rule rule endpoint view_func options w) = Inr VNone
   \<and> fst (run host port debug load_dotenv options w) = Inr VNone
   \<and> fst (run_call host' port' debug' load_dotenv' options w) = Inr VNone
   \<and> (fst (decorator cl0 fn w) = Inr fn
        \<or> (\<exists>k. fst (decorator cl0 fn w) = Inl (MultipleValues ''add_url_rule'' k)
               \<and> k \<in> fst ` set (cl_options cl0)
               \<and> k \<in> {''self'', ''rule'', ''view_func''}))"
proof -
  let ?rest = "filter (\<lambda>(k, v). k \<noteq> ''endpoint'') (cl_options cl0)"
  let ?filled = "[''self'', ''rule'', ''endpoint'', ''view_func'']"
  have "fst (decorator cl0 fn w) = Inr fn
        \<or> (\<exists>k. fst (decorator cl0 fn w) = Inl (MultipleValues ''add_url_rule'' k)
               \<and> k \<in> fst ` set (cl_options cl0)
               \<and> k \<in> {''self'', ''rule'', ''view_func''})"
    using bind_keywords_cases [of "''add_url_rule''" ?filled ?rest]
  proof
    assume "bind_keywords ''add_url_rule'' ?filled ?rest = Inr ?rest"
    then show ?thesis by (simp add: decorator_result)
  next
    assume "\<exists>k. bind_keywords ''add_url_rule'' ?filled ?rest = Inl (MultipleValues ''add_url_rule'' k)
                \<and> k \<in> fst ` set ?rest \<and> k \<in> set ?filled"
    then obtain k where k: "bind_keywords ''add_url_rule'' ?filled ?rest
                              = Inl (MultipleValues ''add_url_rule'' k)"
      and kin: "k \<in> fst ` set ?rest" and kf: "k \<in> set ?filled"
      by blast
    from kin have "k \<noteq> ''endpoint''" and "k \<in> fst ` set (cl_options cl0)"
      by auto
    with k kf show ?thesis
      by (auto simp: decorator_result)
  qed
  then show ?thesis
    by (simp add: Flask_init_def Flask_new_def route_def add_url_rule_def run_def run_call_def
        run_params_def)
qed

text \<open>
  C6. The ten fields are set by construction and preserved by every later operation:
  \<open>route\<close>, an application of a decorator, \<open>add_url_rule\<close>, \<open>run\<close>, and any
  sequence of them; after any such sequence the application object still holds the
  ten constructor arguments.
\<close>

theorem fields_preserved:
  "app (snd (route rule options w)) = app w
   \<and> app (snd (snd (decorator cl fn w))) = app w
   \<and> app (snd (add_url_rule rule endpoint view_func options w)) = app w
   \<and> app (snd (run host port debug load_dotenv options w)) = app w
   \<and> app (snd (run_call host' port' debug' load_dotenv' options w)) = app w
   \<and> app (fold perform ops w) = app w
   \<and> (\<exists>F. Flask_init a b c d e f g h i j = Inr F
          \<and> app (fold perform ops (new_world F)) =
              \<lparr> import_name = a, static_url_path = b, static_folder = c, static_host = d,
                host_matching = e, subdomain_matching = f, template_folder = g,
                instance_path = h, instance_relative_config = i, root_path = j \<rparr>)"
  by (simp add: fold_perform_app decorator_app route_def add_url_rule_def run_def run_call_def
      run_params_def Flask_init_def new_world_def)

end
